theory Spec2Isabelle
  imports Main "HOL-Library.Sublist"
begin

section \<open>JavaScript values, failure objects and responses\<close>

text \<open>
  The values that travel through the handlers: parsed JSON bodies, path parameters,
  documents handed to \<^verbatim>\<open>res.json\<close>. \<open>JUndefined\<close> is the value of a property that is
  not there. Numbers are the integers and \<open>JNaN\<close>; a timestamp is a \<open>JDate\<close>
  (milliseconds since the epoch).
\<close>

datatype jsval =
    JUndefined
  | JNull
  | JBool bool
  | JNum int
  | JNaN
  | JStr string
  | JDate nat
  | JArr "jsval list"
  | JObj "(string \<times> jsval) list"

text \<open>JavaScript truthiness, as \<^verbatim>\<open>!x\<close> and \<^verbatim>\<open>x || y\<close> read it.\<close>

fun truthy :: "jsval \<Rightarrow> bool" where
  "truthy JUndefined = False"
| "truthy JNull = False"
| "truthy (JBool b) = b"
| "truthy (JNum n) = (n \<noteq> 0)"
| "truthy JNaN = False"
| "truthy (JStr s) = (s \<noteq> [])"
| "truthy (JDate t) = True"
| "truthy (JArr xs) = True"
| "truthy (JObj kvs) = True"

text \<open>Property read \<^verbatim>\<open>v.k\<close> on a parsed body: a missing property is \<open>JUndefined\<close>.\<close>

fun field :: "jsval \<Rightarrow> string \<Rightarrow> jsval" where
  "field (JObj kvs) k = (case map_of kvs k of Some v \<Rightarrow> v | None \<Rightarrow> JUndefined)"
| "field v k = JUndefined"

text \<open>
  A thrown \<^verbatim>\<open>Error\<close>: the two properties the error translator reads. \<^verbatim>\<open>new Error(m)\<close>
  carries no status code; \<^verbatim>\<open>new Error()\<close> has the empty message.
\<close>

record js_error =
  statusCode :: "int option"
  message :: string

definition new_Error :: "string \<Rightarrow> js_error" where
  "new_Error m = \<lparr>statusCode = None, message = m\<rparr>"

record response =
  status :: int
  payload :: jsval

text \<open>\<^verbatim>\<open>res.status(c).json(v)\<close>.\<close>

definition respond :: "int \<Rightarrow> jsval \<Rightarrow> response" where
  "respond c v = \<lparr>status = c, payload = v\<rparr>"

section \<open>The error translator (server.js)\<close>

text \<open>
  \<^verbatim>\<open>res.status(err.statusCode || 500).json({success: false, error: err.message || "Server Error"})\<close>.
  \<^verbatim>\<open>||\<close> takes its right operand when the left one is falsy: an absent status code or
  the number 0, an empty message.
\<close>

definition errorHandler :: "js_error \<Rightarrow> response" where
  "errorHandler err =
     respond
       (case statusCode err of
          None \<Rightarrow> 500
        | Some c \<Rightarrow> if c = 0 then 500 else c)
       (JObj [(''success'', JBool False),
              (''error'', JStr (if message err = [] then ''Server Error'' else message err))])"

section \<open>Requests and the collaborating libraries\<close>

datatype http_method = GET | POST | PUT | DELETE

text \<open>
  A request after \<^verbatim>\<open>express.json()\<close>: the path is the list of its segments below the
  \<^verbatim>\<open>/api/\<close> mount point, \<open>authorization\<close> is \<^verbatim>\<open>req.headers.authorization\<close>, \<open>query\<close> the
  parsed query string, \<open>user\<close> what the gate attaches as \<^verbatim>\<open>req.user\<close>.
\<close>

record request =
  verb :: http_method
  path :: "string list"
  params :: "(string \<times> string) list"
  authorization :: "string option"
  query :: "(string \<times> string) list"
  body :: jsval
  user :: jsval

text \<open>
  What the handlers call and this repository does not define: the token service
  (\<^verbatim>\<open>jsonwebtoken\<close> under \<^verbatim>\<open>JWT_SECRET\<close>), the password hash (\<^verbatim>\<open>bcrypt\<close>), and the parts of
  the document store whose outcome no line of the handlers decides. Every theorem below
  holds for all of them. A call that rejects or throws returns \<open>Inl\<close> the error.
\<close>

record admin =
  a_id :: string
  a_name :: string
  a_email :: string
  a_password :: string
  a_createdAt :: nat

record user =
  uid :: string
  name :: string
  email :: string
  age :: "int option"
  createdAt :: nat

text \<open>A request body cast to the paths of \<^verbatim>\<open>UserSchema\<close>; \<open>None\<close> is a path the body lacks.\<close>

record user_input =
  in_name :: "string option"
  in_email :: "string option"
  in_age :: "int option"
  in_createdAt :: "nat option"

text \<open>
  \<^item> \<open>jwt_verify t\<close> is \<^verbatim>\<open>jwt.verify(t, JWT_SECRET)\<close>: the decoded claims, or the error thrown
    for a token that is malformed, wrongly signed or expired; \<open>jwt_sign\<close> is \<^verbatim>\<open>jwt.sign\<close>.
  \<^item> \<open>bcrypt_compare_strings p h\<close> is \<^verbatim>\<open>bcrypt.compare(p, h)\<close> for a string \<open>p\<close> and a stored hash \<open>h\<close>.
  \<^item> \<open>Admin_findOne e\<close> is \<^verbatim>\<open>Admin.findOne({ email: e })\<close> on the admin collection as it is.
  \<^item> \<open>cast_fields\<close> casts a body to the types of the schema's paths; \<open>new_ObjectId\<close> is the
    id given to a new document; \<open>objectId_of_12_bytes\<close> is the id a 12-byte string is
    cast to, where the driver takes such strings.
  \<^item> \<open>insertMany\<close>, \<open>findOneAndUpdate\<close> (by a cast id), \<open>bulkWrite\<close> (of pairs of filter
    id and \<^verbatim>\<open>$set\<close> data), \<open>deleteMany_in\<close> (of \<^verbatim>\<open>{ _id: { $in: ids } }\<close>) and \<open>skip_limit\<close>
    (\<^verbatim>\<open>find().skip(s).limit(l)\<close>) act on the user collection and return it updated.
  \<^item> \<open>regex_other\<close> compiles a pattern that is not written out below; \<open>array_builtin\<close> runs
    a built-in array method.
\<close>

record lib =
  jwt_verify :: "string \<Rightarrow> js_error + jsval"
  jwt_sign :: "jsval \<Rightarrow> string"
  bcrypt_compare_strings :: "string \<Rightarrow> string \<Rightarrow> js_error + bool"
  Admin_findOne :: "jsval \<Rightarrow> js_error + admin option"
  cast_fields :: "jsval \<Rightarrow> js_error + user_input"
  new_ObjectId :: "user list \<Rightarrow> string"
  objectId_of_12_bytes :: "string \<Rightarrow> string option"
  insertMany :: "jsval \<Rightarrow> user list \<Rightarrow> (js_error + user list) \<times> user list"
  findOneAndUpdate :: "string \<Rightarrow> jsval \<Rightarrow> user list \<Rightarrow> (js_error + user option) \<times> user list"
  bulkWrite :: "(jsval \<times> jsval) list \<Rightarrow> user list \<Rightarrow> (js_error + int) \<times> user list"
  deleteMany_in :: "jsval \<Rightarrow> user list \<Rightarrow> (js_error + int) \<times> user list"
  skip_limit :: "jsval \<Rightarrow> jsval \<Rightarrow> user list \<Rightarrow> js_error + user list"
  regex_other :: "string \<Rightarrow> js_error + (string \<Rightarrow> bool)"
  array_builtin :: "string \<Rightarrow> user list \<Rightarrow> jsval"

section \<open>The authentication gate (routes/Users.js, authenticate)\<close>

text \<open>\<^verbatim>\<open>s.split(" ")\<close>: the pieces of \<open>s\<close> between single separators; never the empty list.\<close>

fun split_on :: "char \<Rightarrow> string \<Rightarrow> string list" where
  "split_on c [] = [[]]"
| "split_on c (x # xs) =
     (if x = c then [] # split_on c xs
      else (case split_on c xs of
              [] \<Rightarrow> [[x]]
            | w # ws \<Rightarrow> (x # w) # ws))"

text \<open>\<^verbatim>\<open>req.headers.authorization?.split(" ")[1]\<close>; \<open>None\<close> is \<^verbatim>\<open>undefined\<close>.\<close>

definition bearer_token :: "request \<Rightarrow> string option" where
  "bearer_token req =
     (case authorization req of
        None \<Rightarrow> None
      | Some h \<Rightarrow>
          (case split_on CHR '' '' h of
             _ # t # _ \<Rightarrow> Some t
           | _ \<Rightarrow> None))"

text \<open>
  The body of the \<^verbatim>\<open>try\<close> block. \<^verbatim>\<open>!token\<close> holds for \<^verbatim>\<open>undefined\<close> and for the empty
  string. The result is the failure thrown there, or the one \<^verbatim>\<open>jwt.verify\<close> throws, or the
  request with the decoded claims attached.
\<close>

definition authenticate_try :: "lib \<Rightarrow> request \<Rightarrow> js_error + request" where
  "authenticate_try L req =
     (case bearer_token req of
        None \<Rightarrow> Inl ((new_Error ''Authentication required'')\<lparr>statusCode := Some 401\<rparr>)
      | Some t \<Rightarrow>
          (if t = [] then Inl ((new_Error ''Authentication required'')\<lparr>statusCode := Some 401\<rparr>)
           else (case jwt_verify L t of
                   Inl e \<Rightarrow> Inl e
                 | Inr decoded \<Rightarrow> Inr (req\<lparr>user := decoded\<rparr>))))"

text \<open>
  The \<^verbatim>\<open>catch\<close> block stamps 401 on whatever was thrown and passes it to \<^verbatim>\<open>next\<close>;
  \<open>Inr\<close> is \<^verbatim>\<open>next()\<close> with the request the handler will see.
\<close>

definition authenticate :: "lib \<Rightarrow> request \<Rightarrow> js_error + request" where
  "authenticate L req =
     (case authenticate_try L req of
        Inl e \<Rightarrow> Inl (e\<lparr>statusCode := Some 401\<rparr>)
      | Inr req' \<Rightarrow> Inr req')"

text \<open>
  Once the gate has spoken, the route runs its handler or hands the failure to the error
  translator: \<^verbatim>\<open>router.verb(path, authenticate, asyncHandler(handler))\<close> followed by
  \<^verbatim>\<open>app.use(errorHandler)\<close>. A handler returns its response, or \<open>Inl\<close> the failure that
  \<^verbatim>\<open>asyncHandler\<close> catches, and the state of the store it leaves behind.
\<close>

definition protected ::
  "lib \<Rightarrow> (request \<Rightarrow> 's \<Rightarrow> (js_error + response) \<times> 's) \<Rightarrow> request \<Rightarrow> 's \<Rightarrow> response \<times> 's" where
  "protected L handler req srv =
     (case authenticate L req of
        Inl e \<Rightarrow> (errorHandler e, srv)
      | Inr req' \<Rightarrow>
          (case handler req' srv of
             (Inl e, srv') \<Rightarrow> (errorHandler e, srv')
           | (Inr r, srv') \<Rightarrow> (r, srv')))"

section \<open>Strings\<close>

text \<open>
  Strings are sequences of 8-bit characters; case folding is that of the ASCII letters and
  white space is the ASCII white space (\<^verbatim>\<open>String.prototype.trim\<close> also strips the Unicode
  white space, which has no place among these characters).
\<close>

definition to_lower :: "char \<Rightarrow> char" where
  "to_lower c =
     (let n = (of_char c :: nat) in if 65 \<le> n \<and> n \<le> 90 then char_of (n + 32) else c)"

definition toLowerCase :: "string \<Rightarrow> string" where
  "toLowerCase s = map to_lower s"

definition is_space :: "char \<Rightarrow> bool" where
  "is_space c = (c \<in> set [CHR '' '', CHR 0x09, CHR 0x0A, CHR 0x0B, CHR 0x0C, CHR 0x0D])"

definition trim :: "string \<Rightarrow> string" where
  "trim s = rev (dropWhile is_space (rev (dropWhile is_space s)))"

definition is_hex :: "char \<Rightarrow> bool" where
  "is_hex c =
     (let n = (of_char c :: nat)
      in (48 \<le> n \<and> n \<le> 57) \<or> (65 \<le> n \<and> n \<le> 70) \<or> (97 \<le> n \<and> n \<le> 102))"

definition quoted :: "string \<Rightarrow> string" where
  "quoted s = CHR 0x22 # s @ [CHR 0x22]"

section \<open>The user model (models/User.js) and the store\<close>

text \<open>
  A schema path's \<^verbatim>\<open>default\<close> is either a value, fixed when the schema is built, or a
  function, which the store library calls each time it builds a document; the argument of
  \<open>DefaultFunction\<close> is the clock reading at that moment.
\<close>

datatype 'a default_spec = DefaultValue 'a | DefaultFunction "nat \<Rightarrow> 'a"

fun apply_default :: "'a default_spec \<Rightarrow> nat \<Rightarrow> 'a" where
  "apply_default (DefaultValue v) now = v"
| "apply_default (DefaultFunction f) now = f now"

record user_schema =
  createdAt_default :: "nat default_spec"

text \<open>
  \<^verbatim>\<open>createdAt: { type: Date, default: Date.now() }\<close>: the call \<^verbatim>\<open>Date.now()\<close> is evaluated
  while the schema literal is built, when models/User.js is loaded at \<open>load_time\<close>.
\<close>

definition UserSchema :: "nat \<Rightarrow> user_schema" where
  "UserSchema load_time = \<lparr>createdAt_default = DefaultValue load_time\<rparr>"

record server =
  User_schema :: user_schema
  users :: "user list"

definition boot :: "nat \<Rightarrow> server" where
  "boot load_time = \<lparr>User_schema = UserSchema load_time, users = []\<rparr>"

text \<open>\<^verbatim>\<open>res.json\<close> of a user document.\<close>

definition user_json :: "user \<Rightarrow> jsval" where
  "user_json u =
     JObj ([(''_id'', JStr (uid u)), (''name'', JStr (name u)), (''email'', JStr (email u))]
           @ (case age u of None \<Rightarrow> [] | Some a \<Rightarrow> [(''age'', JNum a)])
           @ [(''createdAt'', JDate (createdAt u)), (''__v'', JNum 0)])"

subsection \<open>Document ids\<close>

text \<open>
  Casting a string to an ObjectId: 24 hexadecimal digits; some driver versions also take
  any 12-byte string. Everything else is a cast failure, whose message quotes the value
  (as it stands: a value with a backslash or a quote in it is rendered otherwise).
\<close>

definition castObjectId :: "lib \<Rightarrow> string \<Rightarrow> string option" where
  "castObjectId L s =
     (if length s = 24 \<and> list_all is_hex s then Some (toLowerCase s)
      else if length s = 12 then objectId_of_12_bytes L s
      else None)"

definition CastError :: "string \<Rightarrow> js_error" where
  "CastError v =
     new_Error (''Cast to ObjectId failed for value '' @ quoted v @ '' (type string) at path ''
                @ quoted ''_id'' @ '' for model '' @ quoted ''users'')"

subsection \<open>Creating a document\<close>

text \<open>
  \<^verbatim>\<open>User.create(body)\<close>: the body is cast to the schema's paths, the setters run (\<^verbatim>\<open>trim\<close> on
  name, \<^verbatim>\<open>lowercase\<close> on email), missing paths take their defaults, the validators run
  (\<^verbatim>\<open>required\<close> on name and email, \<^verbatim>\<open>min: 0\<close> on age), and the insert fails on a duplicate
  of the \<^verbatim>\<open>unique\<close> email.
\<close>

record draft =
  d_name :: "string option"
  d_email :: "string option"
  d_age :: "int option"
  d_createdAt :: nat

definition new_document :: "user_schema \<Rightarrow> nat \<Rightarrow> user_input \<Rightarrow> draft" where
  "new_document sch now inp =
     \<lparr>d_name = map_option trim (in_name inp),
      d_email = map_option toLowerCase (in_email inp),
      d_age = in_age inp,
      d_createdAt =
        (case in_createdAt inp of
           Some t \<Rightarrow> t
         | None \<Rightarrow> apply_default (createdAt_default sch) now)\<rparr>"

definition validation_errors :: "draft \<Rightarrow> string list" where
  "validation_errors d =
     (if d_name d = None \<or> d_name d = Some [] then [''name: Name is required''] else [])
     @ (if d_email d = None \<or> d_email d = Some [] then [''email: Email is required''] else [])
     @ (case d_age d of
          None \<Rightarrow> []
        | Some a \<Rightarrow> if a < 0 then [''age: Age cannot be negative''] else [])"

fun join :: "string \<Rightarrow> string list \<Rightarrow> string" where
  "join sep [] = []"
| "join sep [x] = x"
| "join sep (x # y # ys) = x @ sep @ join sep (y # ys)"

definition ValidationError :: "string list \<Rightarrow> js_error" where
  "ValidationError errs = new_Error (''users validation failed: '' @ join '', '' errs)"

text \<open>The store's refusal of a second document with the same email (message abbreviated).\<close>

definition DuplicateKey :: js_error where
  "DuplicateKey = new_Error ''E11000 duplicate key error''"

definition User_create ::
  "lib \<Rightarrow> nat \<Rightarrow> jsval \<Rightarrow> server \<Rightarrow> (js_error + user) \<times> server" where
  "User_create L now b srv =
     (case cast_fields L b of
        Inl e \<Rightarrow> (Inl e, srv)
      | Inr inp \<Rightarrow>
          (let d = new_document (User_schema srv) now inp in
           case (d_name d, d_email d) of
             (Some n, Some e) \<Rightarrow>
               (if validation_errors d \<noteq> [] then (Inl (ValidationError (validation_errors d)), srv)
                else if e \<in> set (map email (users srv)) then (Inl DuplicateKey, srv)
                else (let u = \<lparr>uid = new_ObjectId L (users srv), name = n, email = e,
                                 age = d_age d, createdAt = d_createdAt d\<rparr>
                      in (Inr u, srv\<lparr>users := users srv @ [u]\<rparr>)))
           | _ \<Rightarrow> (Inl (ValidationError (validation_errors d)), srv)))"

subsection \<open>Reading and removing by id\<close>

definition User_find :: "server \<Rightarrow> user list" where
  "User_find srv = users srv"

definition User_findById ::
  "lib \<Rightarrow> string \<Rightarrow> server \<Rightarrow> (js_error + user option) \<times> server" where
  "User_findById L i srv =
     (case castObjectId L i of
        None \<Rightarrow> (Inl (CastError i), srv)
      | Some oid \<Rightarrow> (Inr (find (\<lambda>u. uid u = oid) (users srv)), srv))"

fun remove_first :: "('a \<Rightarrow> bool) \<Rightarrow> 'a list \<Rightarrow> 'a list" where
  "remove_first P [] = []"
| "remove_first P (x # xs) = (if P x then xs else x # remove_first P xs)"

definition User_findByIdAndDelete ::
  "lib \<Rightarrow> string \<Rightarrow> server \<Rightarrow> (js_error + user option) \<times> server" where
  "User_findByIdAndDelete L i srv =
     (case castObjectId L i of
        None \<Rightarrow> (Inl (CastError i), srv)
      | Some oid \<Rightarrow>
          (Inr (find (\<lambda>u. uid u = oid) (users srv)),
           srv\<lparr>users := remove_first (\<lambda>u. uid u = oid) (users srv)\<rparr>))"

definition User_findByIdAndUpdate ::
  "lib \<Rightarrow> string \<Rightarrow> jsval \<Rightarrow> server \<Rightarrow> (js_error + user option) \<times> server" where
  "User_findByIdAndUpdate L i b srv =
     (case castObjectId L i of
        None \<Rightarrow> (Inl (CastError i), srv)
      | Some oid \<Rightarrow>
          (case findOneAndUpdate L oid b (users srv) of
             (r, us) \<Rightarrow> (r, srv\<lparr>users := us\<rparr>)))"

text \<open>
  The members of the model that take one id and resolve to a document or \<^verbatim>\<open>null\<close>.
  models/User.js declares no statics or plugins, so the members are those the store
  library gives every model. Any other name reads as \<^verbatim>\<open>undefined\<close>, and calling it throws
  a \<^verbatim>\<open>TypeError\<close>.
\<close>

definition User_member ::
  "string \<Rightarrow> (lib \<Rightarrow> string \<Rightarrow> server \<Rightarrow> (js_error + user option) \<times> server) option" where
  "User_member m =
     (if m = ''findById'' then Some User_findById
      else if m = ''findByIdAndDelete'' then Some User_findByIdAndDelete
      else None)"

section \<open>Regular expressions of the search route\<close>

text \<open>
  \<^verbatim>\<open>{ $regex: key, $options: "i" }\<close> hands the key to the store's regular-expression
  engine. The patterns written here are those made of ordinary characters and the dot:
  an ordinary character stands for itself in either case, the dot for any character but
  the line feed, and the pattern may match anywhere in the subject. Every other pattern
  (one with another metacharacter) is left to the engine.
\<close>

datatype atom = Literal char | AnyChar

definition metachar :: "char \<Rightarrow> bool" where
  "metachar c =
     (c \<in> set [CHR 0x5C, CHR ''^'', CHR ''$'', CHR ''.'', CHR ''|'', CHR ''?'', CHR ''*'',
               CHR ''+'', CHR ''('', CHR '')'', CHR ''['', CHR '']'', CHR ''{'', CHR ''}''])"

fun parse_simple :: "string \<Rightarrow> atom list option" where
  "parse_simple [] = Some []"
| "parse_simple (c # cs) =
     (case parse_simple cs of
        None \<Rightarrow> None
      | Some as \<Rightarrow>
          (if c = CHR ''.'' then Some (AnyChar # as)
           else if metachar c then None
           else Some (Literal c # as)))"

fun atom_matches :: "atom \<Rightarrow> char \<Rightarrow> bool" where
  "atom_matches (Literal c) x = (to_lower c = to_lower x)"
| "atom_matches AnyChar x = (x \<noteq> CHR 0x0A)"

fun match_here :: "atom list \<Rightarrow> string \<Rightarrow> bool" where
  "match_here [] s = True"
| "match_here (a # as) [] = False"
| "match_here (a # as) (x # xs) = (atom_matches a x \<and> match_here as xs)"

fun search :: "atom list \<Rightarrow> string \<Rightarrow> bool" where
  "search as [] = match_here as []"
| "search as (x # xs) = (match_here as (x # xs) \<or> search as xs)"

definition regex_i :: "lib \<Rightarrow> string \<Rightarrow> js_error + (string \<Rightarrow> bool)" where
  "regex_i L pat =
     (case parse_simple pat of
        Some as \<Rightarrow> Inr (search as)
      | None \<Rightarrow> regex_other L pat)"

text \<open>\<^verbatim>\<open>User.find({ $or: [{ name: rx }, { email: rx }] })\<close>, in the store's order.\<close>

definition User_find_regex :: "lib \<Rightarrow> string \<Rightarrow> server \<Rightarrow> js_error + user list" where
  "User_find_regex L key srv =
     (case regex_i L key of
        Inl e \<Rightarrow> Inl e
      | Inr rx \<Rightarrow> Inr (filter (\<lambda>u. rx (name u) \<or> rx (email u)) (users srv)))"

section \<open>Numbers of the pagination route\<close>

text \<open>
  \<^verbatim>\<open>page - 1\<close> and \<^verbatim>\<open>(page - 1) * limit\<close> convert their operands to numbers. The path
  parameter is a string, the query value a string or \<^verbatim>\<open>undefined\<close>. A string of decimal
  digits with an optional sign is its number and blank is 0; other notations (exponent,
  hexadecimal, fraction) are not written out and read as \<open>JNaN\<close>, as does \<^verbatim>\<open>undefined\<close>.
  The arithmetic is that of the integers, exact where doubles round (beyond \<open>2 ^ 53\<close>).
  These numbers decide the skip value of the query only.
\<close>

definition is_digit :: "char \<Rightarrow> bool" where
  "is_digit c = (let n = (of_char c :: nat) in 48 \<le> n \<and> n \<le> 57)"

definition digits_value :: "string \<Rightarrow> int" where
  "digits_value ds = foldl (\<lambda>acc c. 10 * acc + (int (of_char c) - 48)) 0 ds"

definition parse_int :: "string \<Rightarrow> int option" where
  "parse_int s =
     (case s of
        [] \<Rightarrow> None
      | c # cs \<Rightarrow>
          (if c = CHR ''-'' \<or> c = CHR ''+'' then
             (if cs \<noteq> [] \<and> list_all is_digit cs
              then Some (if c = CHR ''-'' then - digits_value cs else digits_value cs)
              else None)
           else if list_all is_digit s then Some (digits_value s)
           else None))"

definition to_number :: "string option \<Rightarrow> jsval" where
  "to_number v =
     (case v of
        None \<Rightarrow> JNaN
      | Some s \<Rightarrow>
          (if trim s = [] then JNum 0
           else (case parse_int (trim s) of Some n \<Rightarrow> JNum n | None \<Rightarrow> JNaN)))"

fun js_sub :: "jsval \<Rightarrow> jsval \<Rightarrow> jsval" where
  "js_sub (JNum a) (JNum b) = JNum (a - b)"
| "js_sub a b = JNaN"

fun js_mul :: "jsval \<Rightarrow> jsval \<Rightarrow> jsval" where
  "js_mul (JNum a) (JNum b) = JNum (a * b)"
| "js_mul a b = JNaN"

text \<open>
  \<^verbatim>\<open>Math.ceil(a / b)\<close> on integers; a quotient that is not finite is rendered \<open>JNaN\<close>
  (\<^verbatim>\<open>res.json\<close> writes \<^verbatim>\<open>null\<close> for both).
\<close>

fun js_ceil_div :: "jsval \<Rightarrow> jsval \<Rightarrow> jsval" where
  "js_ceil_div (JNum a) (JNum b) = (if b = 0 then JNaN else JNum (- ((- a) div b)))"
| "js_ceil_div a b = JNaN"

definition opt_str :: "string option \<Rightarrow> jsval" where
  "opt_str v = (case v of None \<Rightarrow> JUndefined | Some s \<Rightarrow> JStr s)"

text \<open>
  The names that are functions on an array: the methods of \<^verbatim>\<open>Array.prototype\<close>, and those
  every object inherits from \<^verbatim>\<open>Object.prototype\<close>. The result of awaiting a \<^verbatim>\<open>find\<close> query
  is a plain array of documents: calling one of these names on it runs the built-in,
  calling any other name throws a \<^verbatim>\<open>TypeError\<close>.
\<close>

definition Array_methods :: "string list" where
  "Array_methods =
     [''at'', ''concat'', ''copyWithin'', ''entries'', ''every'', ''fill'', ''filter'',
      ''find'', ''findIndex'', ''findLast'', ''findLastIndex'', ''flat'', ''flatMap'',
      ''forEach'', ''includes'', ''indexOf'', ''join'', ''keys'', ''lastIndexOf'', ''map'',
      ''pop'', ''push'', ''reduce'', ''reduceRight'', ''reverse'', ''shift'', ''slice'',
      ''some'', ''sort'', ''splice'', ''toLocaleString'', ''toReversed'', ''toSorted'',
      ''toSpliced'', ''toString'', ''unshift'', ''values'', ''with'',
      ''constructor'', ''hasOwnProperty'', ''isPrototypeOf'', ''propertyIsEnumerable'',
      ''valueOf'', ''__defineGetter__'', ''__defineSetter__'', ''__lookupGetter__'',
      ''__lookupSetter__'']"

definition array_call :: "lib \<Rightarrow> string \<Rightarrow> string \<Rightarrow> user list \<Rightarrow> js_error + jsval" where
  "array_call L var m xs =
     (if m \<in> set Array_methods then Inr (array_builtin L m xs)
      else Inl (new_Error (var @ ''.'' @ m @ '' is not a function'')))"

section \<open>The resource handlers (routes/Users.js)\<close>

definition ok :: "int \<Rightarrow> (string \<times> jsval) list \<Rightarrow> js_error + response" where
  "ok c kvs = Inr (respond c (JObj ((''success'', JBool True) # kvs)))"

definition not_found :: js_error where
  "not_found = (new_Error ''User not found'')\<lparr>statusCode := Some 404\<rparr>"

definition count_of :: "'a list \<Rightarrow> jsval" where
  "count_of xs = JNum (int (length xs))"

text \<open>POST /users\<close>

definition create_user ::
  "lib \<Rightarrow> nat \<Rightarrow> request \<Rightarrow> server \<Rightarrow> (js_error + response) \<times> server" where
  "create_user L now req srv =
     (case User_create L now (body req) srv of
        (Inl e, srv') \<Rightarrow> (Inl e, srv')
      | (Inr u, srv') \<Rightarrow> (ok 201 [(''data'', user_json u)], srv'))"

text \<open>POST /users/bulk\<close>

definition create_users ::
  "lib \<Rightarrow> request \<Rightarrow> server \<Rightarrow> (js_error + response) \<times> server" where
  "create_users L req srv =
     (case insertMany L (body req) (users srv) of
        (Inl e, us) \<Rightarrow> (Inl e, srv\<lparr>users := us\<rparr>)
      | (Inr new, us) \<Rightarrow>
          (ok 201 [(''count'', count_of new), (''data'', JArr (map user_json new))],
           srv\<lparr>users := us\<rparr>))"

text \<open>GET /users\<close>

definition list_users :: "request \<Rightarrow> server \<Rightarrow> (js_error + response) \<times> server" where
  "list_users req srv =
     (let us = User_find srv
      in (ok 200 [(''count'', count_of us), (''data'', JArr (map user_json us))], srv))"

text \<open>GET /users/:id\<close>

definition get_user :: "lib \<Rightarrow> string \<Rightarrow> server \<Rightarrow> (js_error + response) \<times> server" where
  "get_user L i srv =
     (case User_findById L i srv of
        (Inl e, srv') \<Rightarrow> (Inl e, srv')
      | (Inr None, srv') \<Rightarrow> (Inl not_found, srv')
      | (Inr (Some u), srv') \<Rightarrow> (ok 200 [(''data'', user_json u)], srv'))"

text \<open>PUT /users/:id\<close>

definition update_user ::
  "lib \<Rightarrow> string \<Rightarrow> request \<Rightarrow> server \<Rightarrow> (js_error + response) \<times> server" where
  "update_user L i req srv =
     (case User_findByIdAndUpdate L i (body req) srv of
        (Inl e, srv') \<Rightarrow> (Inl e, srv')
      | (Inr None, srv') \<Rightarrow> (Inl not_found, srv')
      | (Inr (Some u), srv') \<Rightarrow> (ok 200 [(''data'', user_json u)], srv'))"

text \<open>
  PUT /users/bulk: \<^verbatim>\<open>req.body.map\<close> exists on arrays only, and reading \<^verbatim>\<open>update.id\<close> of a
  \<^verbatim>\<open>null\<close> element throws.
\<close>

definition update_users ::
  "lib \<Rightarrow> request \<Rightarrow> server \<Rightarrow> (js_error + response) \<times> server" where
  "update_users L req srv =
     (case body req of
        JArr updates \<Rightarrow>
          (if JNull \<in> set updates
           then (Inl (new_Error ''Cannot read properties of null (reading 'id')''), srv)
           else (case bulkWrite L (map (\<lambda>update. (field update ''id'', field update ''data'')) updates)
                        (users srv) of
                   (Inl e, us) \<Rightarrow> (Inl e, srv\<lparr>users := us\<rparr>)
                 | (Inr modifiedCount, us) \<Rightarrow>
                     (ok 200 [(''modified'', JNum modifiedCount)], srv\<lparr>users := us\<rparr>)))
      | _ \<Rightarrow> (Inl (new_Error ''req.body.map is not a function''), srv))"

text \<open>DELETE /users/:id, which calls \<^verbatim>\<open>User.deleteById(req.params.id)\<close>.\<close>

definition delete_user :: "lib \<Rightarrow> string \<Rightarrow> server \<Rightarrow> (js_error + response) \<times> server" where
  "delete_user L i srv =
     (case User_member ''deleteById'' of
        None \<Rightarrow> (Inl (new_Error ''User.deleteById is not a function''), srv)
      | Some deleteById \<Rightarrow>
          (case deleteById L i srv of
             (Inl e, srv') \<Rightarrow> (Inl e, srv')
           | (Inr None, srv') \<Rightarrow> (Inl not_found, srv')
           | (Inr (Some u), srv') \<Rightarrow> (ok 200 [(''data'', JObj [])], srv')))"

text \<open>DELETE /users/bulk\<close>

definition delete_users ::
  "lib \<Rightarrow> request \<Rightarrow> server \<Rightarrow> (js_error + response) \<times> server" where
  "delete_users L req srv =
     (case deleteMany_in L (field (body req) ''ids'') (users srv) of
        (Inl e, us) \<Rightarrow> (Inl e, srv\<lparr>users := us\<rparr>)
      | (Inr deletedCount, us) \<Rightarrow>
          (ok 200 [(''deleted'', JNum deletedCount)], srv\<lparr>users := us\<rparr>))"

text \<open>GET /search/:key\<close>

definition search_users :: "lib \<Rightarrow> string \<Rightarrow> server \<Rightarrow> (js_error + response) \<times> server" where
  "search_users L searchKey srv =
     (case User_find_regex L searchKey srv of
        Inl e \<Rightarrow> (Inl e, srv)
      | Inr us \<Rightarrow>
          (ok 200 [(''count'', count_of us), (''data'', JArr (map user_json us))], srv))"

text \<open>
  GET /users/page/:page. \<^verbatim>\<open>users\<close> is the awaited array; \<^verbatim>\<open>users.count\<close> is \<^verbatim>\<open>undefined\<close>
  on an array, and \<^verbatim>\<open>res.json\<close> leaves an \<^verbatim>\<open>undefined\<close> property out.
\<close>

definition paginate_users ::
  "lib \<Rightarrow> string \<Rightarrow> request \<Rightarrow> server \<Rightarrow> (js_error + response) \<times> server" where
  "paginate_users L page req srv =
     (let limit = map_of (query req) ''limit'';
          startIndex = js_mul (js_sub (to_number (Some page)) (JNum 1)) (to_number limit)
      in case skip_limit L startIndex (opt_str limit) (User_find srv) of
           Inl e \<Rightarrow> (Inl e, srv)
         | Inr us \<Rightarrow>
             (case array_call L ''users'' ''countDocuments'' us of
                Inl e \<Rightarrow> (Inl e, srv)
              | Inr total_count \<Rightarrow>
                  (ok 200 [(''pagination'',
                             JObj [(''current'', JStr page),
                                   (''pages'', js_ceil_div total_count (to_number limit)),
                                   (''total'', total_count)]),
                           (''data'', JArr (map user_json us))], srv)))"

section \<open>The router (routes/Users.js)\<close>

datatype seg = Lit string | Par string

text \<open>
  A route path matches segment by segment; \<^verbatim>\<open>:name\<close> takes one non-empty segment. Literal
  segments are compared exactly: the router's default options also take another letter
  case and a trailing slash, and such paths are not covered here.
\<close>

fun match_path :: "seg list \<Rightarrow> string list \<Rightarrow> (string \<times> string) list option" where
  "match_path [] [] = Some []"
| "match_path (Lit l # ps) (x # xs) = (if x = l then match_path ps xs else None)"
| "match_path (Par k # ps) (x # xs) =
     (if x = [] then None
      else (case match_path ps xs of None \<Rightarrow> None | Some b \<Rightarrow> Some ((k, x) # b)))"
| "match_path ps xs = None"

datatype handler =
    CreateOne | CreateBulk | ListAll | ReadOne | UpdateOne | UpdateBulk
  | DeleteOne | DeleteBulk | Search | Paginate

text \<open>The routes in the order the file registers them.\<close>

definition routes :: "(http_method \<times> seg list \<times> handler) list" where
  "routes =
     [(POST, [Lit ''users''], CreateOne),
      (POST, [Lit ''users'', Lit ''bulk''], CreateBulk),
      (GET, [Lit ''users''], ListAll),
      (GET, [Lit ''users'', Par ''id''], ReadOne),
      (PUT, [Lit ''users'', Par ''id''], UpdateOne),
      (PUT, [Lit ''users'', Lit ''bulk''], UpdateBulk),
      (DELETE, [Lit ''users'', Par ''id''], DeleteOne),
      (DELETE, [Lit ''users'', Lit ''bulk''], DeleteBulk),
      (GET, [Lit ''search'', Par ''key''], Search),
      (GET, [Lit ''users'', Lit ''page'', Par ''page''], Paginate)]"

text \<open>The first registered route whose method and path match takes the request.\<close>

fun dispatch ::
  "(http_method \<times> seg list \<times> handler) list \<Rightarrow> http_method \<Rightarrow> string list
     \<Rightarrow> (handler \<times> (string \<times> string) list) option" where
  "dispatch [] m p = None"
| "dispatch ((m', pat, h) # rs) m p =
     (if m' = m
      then (case match_path pat p of
              Some b \<Rightarrow> Some (h, b)
            | None \<Rightarrow> dispatch rs m p)
      else dispatch rs m p)"

text \<open>\<^verbatim>\<open>req.params.k\<close> of a matched route.\<close>

definition param :: "request \<Rightarrow> string \<Rightarrow> string" where
  "param req k = (case map_of (params req) k of Some v \<Rightarrow> v | None \<Rightarrow> [])"

fun run_handler ::
  "lib \<Rightarrow> nat \<Rightarrow> handler \<Rightarrow> request \<Rightarrow> server \<Rightarrow> (js_error + response) \<times> server" where
  "run_handler L now CreateOne req srv = create_user L now req srv"
| "run_handler L now CreateBulk req srv = create_users L req srv"
| "run_handler L now ListAll req srv = list_users req srv"
| "run_handler L now ReadOne req srv = get_user L (param req ''id'') srv"
| "run_handler L now UpdateOne req srv = update_user L (param req ''id'') req srv"
| "run_handler L now UpdateBulk req srv = update_users L req srv"
| "run_handler L now DeleteOne req srv = delete_user L (param req ''id'') srv"
| "run_handler L now DeleteBulk req srv = delete_users L req srv"
| "run_handler L now Search req srv = search_users L (param req ''key'') srv"
| "run_handler L now Paginate req srv = paginate_users L (param req ''page'') req srv"

text \<open>
  The user router behind the error translator, for a request handled when the clock
  reads \<open>now\<close>. \<open>None\<close>: no route of this router matches and the request passes on.
\<close>

definition userRoutes ::
  "lib \<Rightarrow> nat \<Rightarrow> request \<Rightarrow> server \<Rightarrow> (response \<times> server) option" where
  "userRoutes L now req srv =
     (case dispatch routes (verb req) (path req) of
        None \<Rightarrow> None
      | Some (h, b) \<Rightarrow> Some (protected L (run_handler L now h) (req\<lparr>params := b\<rparr>) srv))"

section \<open>Login (routes/Auth.js)\<close>

text \<open>
  \<^verbatim>\<open>bcrypt.compare(data, hash)\<close> checks its arguments before it compares: it rejects with
  "data and hash arguments required" when \<open>data\<close> is \<^verbatim>\<open>null\<close> or \<^verbatim>\<open>undefined\<close>, and with "data
  and hash must be strings" when \<open>data\<close> is anything but a string. The stored hash is a
  string.
\<close>

definition bcrypt_compare :: "lib \<Rightarrow> jsval \<Rightarrow> string \<Rightarrow> js_error + bool" where
  "bcrypt_compare L data hash =
     (case data of
        JStr s \<Rightarrow> bcrypt_compare_strings L s hash
      | JUndefined \<Rightarrow> Inl (new_Error ''data and hash arguments required'')
      | JNull \<Rightarrow> Inl (new_Error ''data and hash arguments required'')
      | _ \<Rightarrow> Inl (new_Error ''data and hash must be strings''))"

definition admin_json :: "admin \<Rightarrow> jsval" where
  "admin_json a =
     JObj [(''_id'', JStr (a_id a)), (''name'', JStr (a_name a)), (''email'', JStr (a_email a)),
           (''createdAt'', JDate (a_createdAt a)), (''__v'', JNum 0)]"

definition login_handler :: "lib \<Rightarrow> request \<Rightarrow> js_error + response" where
  "login_handler L req =
     (let email = field (body req) ''email'';
          password = field (body req) ''password''
      in if \<not> truthy email \<or> \<not> truthy password
         then Inr (respond 400 (JObj [(''success'', JBool False),
                                      (''message'', JStr ''Email and Password are required'')]))
         else (case Admin_findOne L email of
                 Inl e \<Rightarrow> Inl e
               | Inr None \<Rightarrow>
                   Inr (respond 401 (JObj [(''success'', JBool False),
                                           (''message'', JStr ''Invalid Email or Password'')]))
               | Inr (Some admin) \<Rightarrow>
                   (case bcrypt_compare L password (a_password admin) of
                      Inl e \<Rightarrow> Inl e
                    | Inr isMatch \<Rightarrow>
                        (if \<not> isMatch
                         then Inr (respond 401 (JObj [(''success'', JBool False),
                                                      (''message'', JStr ''Invalid Email or Password'')]))
                         else Inr (respond 200
                                     (JObj [(''success'', JBool True),
                                            (''message'', JStr ''Login Successful''),
                                            (''data'', admin_json admin),
                                            (''token'',
                                             JStr (jwt_sign L (JObj [(''id'', JStr (a_id admin))])))]))))))"

text \<open>POST /login behind \<^verbatim>\<open>asyncHandler\<close> and the error translator; the route has no gate.\<close>

definition login :: "lib \<Rightarrow> request \<Rightarrow> response" where
  "login L req = (case login_handler L req of Inl e \<Rightarrow> errorHandler e | Inr r \<Rightarrow> r)"

section \<open>A concrete library and store for evaluation\<close>

text \<open>
  One instance of the collaborators, used where a statement is evaluated at a concrete
  request: a token service that accepts a single token, a hash comparison on strings, an
  admin collection with one record, and simple store operations.
\<close>

definition the_admin :: admin where
  "the_admin =
     \<lparr>a_id = ''64b7f0c2a1d3e4f5a6b7c8d9'', a_name = ''Root'', a_email = ''admin@example.com'',
      a_password = ''hash:secret1'', a_createdAt = 1000\<rparr>"

definition str_field :: "jsval \<Rightarrow> string \<Rightarrow> string option" where
  "str_field b k = (case field b k of JStr s \<Rightarrow> Some s | _ \<Rightarrow> None)"

definition stub_lib :: lib where
  "stub_lib =
     \<lparr>jwt_verify =
        (\<lambda>t. if t = ''good.token'' then Inr (JObj [(''id'', JStr (a_id the_admin))])
             else if t = ''old.token'' then Inl (new_Error ''jwt expired'')
             else Inl (new_Error ''invalid signature'')),
      jwt_sign = (\<lambda>v. ''good.token''),
      bcrypt_compare_strings = (\<lambda>p h. Inr (''hash:'' @ p = h)),
      Admin_findOne = (\<lambda>e. Inr (if e = JStr (a_email the_admin) then Some the_admin else None)),
      cast_fields =
        (\<lambda>b. Inr \<lparr>in_name = str_field b ''name'', in_email = str_field b ''email'',
                    in_age = (case field b ''age'' of JNum n \<Rightarrow> Some n | _ \<Rightarrow> None),
                    in_createdAt = (case field b ''createdAt'' of JDate t \<Rightarrow> Some t | _ \<Rightarrow> None)\<rparr>),
      new_ObjectId =
        (\<lambda>us. ''65a1b2c3d4e5f6a7b8c9d0e'' @ [''0123456789abcdef'' ! (length us mod 16)]),
      objectId_of_12_bytes = (\<lambda>s. None),
      insertMany = (\<lambda>b us. (Inr [], us)),
      findOneAndUpdate = (\<lambda>oid b us. (Inr (find (\<lambda>u. uid u = oid) us), us)),
      bulkWrite = (\<lambda>ops us. (Inr 0, us)),
      deleteMany_in = (\<lambda>ids us. (Inr 0, us)),
      skip_limit =
        (\<lambda>start lim us.
           case (start, lim) of
             (JNum a, JStr l) \<Rightarrow>
               (case parse_int l of
                  Some n \<Rightarrow> Inr (take (nat n) (drop (nat a) us))
                | None \<Rightarrow> Inl (new_Error ''limit must be a number''))
           | _ \<Rightarrow> Inl (new_Error ''skip must be a number'')),
      regex_other = (\<lambda>p. Inl (new_Error ''Regular expression is invalid'')),
      array_builtin = (\<lambda>m us. JUndefined)\<rparr>"

definition bob :: user where
  "bob = \<lparr>uid = ''507f1f77bcf86cd799439011'', name = ''Bob'', email = ''bob@example.com'',
          age = Some 30, createdAt = 1000\<rparr>"

definition carol :: user where
  "carol = \<lparr>uid = ''507f1f77bcf86cd799439012'', name = ''Carol'', email = ''carol@example.com'',
            age = None, createdAt = 1000\<rparr>"

definition two_users :: server where
  "two_users = \<lparr>User_schema = UserSchema 1000, users = [bob, carol]\<rparr>"

text \<open>A request with the accepted token in \<^verbatim>\<open>Authorization: Bearer good.token\<close>.\<close>

definition authed :: "http_method \<Rightarrow> string list \<Rightarrow> jsval \<Rightarrow> request" where
  "authed m p b =
     \<lparr>verb = m, path = p, params = [], authorization = Some ''Bearer good.token'',
      query = [], body = b, user = JUndefined\<rparr>"

definition anonymous :: "http_method \<Rightarrow> string list \<Rightarrow> jsval \<Rightarrow> request" where
  "anonymous m p b =
     \<lparr>verb = m, path = p, params = [], authorization = None,
      query = [], body = b, user = JUndefined\<rparr>"

text \<open>Two creation requests that give no \<^verbatim>\<open>createdAt\<close>.\<close>

definition post_dave :: request where
  "post_dave =
     authed POST [''users''] (JObj [(''name'', JStr ''Dave''), (''email'', JStr ''dave@example.com'')])"

definition post_erin :: request where
  "post_erin =
     authed POST [''users''] (JObj [(''name'', JStr ''Erin''), (''email'', JStr ''erin@example.com'')])"

definition dave :: user where
  "dave = \<lparr>uid = ''65a1b2c3d4e5f6a7b8c9d0e0'', name = ''Dave'', email = ''dave@example.com'',
           age = None, createdAt = 1000\<rparr>"

definition erin :: user where
  "erin = \<lparr>uid = ''65a1b2c3d4e5f6a7b8c9d0e1'', name = ''Erin'', email = ''erin@example.com'',
           age = None, createdAt = 1000\<rparr>"

text \<open>A login request with the email \<open>e\<close> and the password value \<open>p\<close>.\<close>

definition login_request :: "string \<Rightarrow> jsval \<Rightarrow> request" where
  "login_request e p = anonymous POST [''login''] (JObj [(''email'', JStr e), (''password'', p)])"

text \<open>\<^verbatim>\<open>typeof v === "string"\<close>.\<close>

fun is_string :: "jsval \<Rightarrow> bool" where
  "is_string (JStr s) = True"
| "is_string v = False"

section \<open>The specification's notion of a match\<close>

text \<open>
  What the specification says of the search: the key occurs in the field as a contiguous
  substring, letter case ignored.
\<close>

definition contains_ignoring_case :: "string \<Rightarrow> string \<Rightarrow> bool" where
  "contains_ignoring_case key s = sublist (toLowerCase key) (toLowerCase s)"

section \<open>The error translator\<close>

text \<open>
  C6, as the specification states it, fails on a failure object with the empty message
  (\<^verbatim>\<open>new Error()\<close>): the body then carries the text "Server Error", not the message.
\<close>

theorem errorHandler_empty_message_counterexample:
  "payload (errorHandler \<lparr>statusCode = None, message = []\<rparr>)
     \<noteq> JObj [(''success'', JBool False),
             (''error'', JStr (message \<lparr>statusCode = None, message = []\<rparr>))]"
  by (simp add: errorHandler_def respond_def)

text \<open>
  C6, amended: for every failure object that reaches the error translator the body is
  \<^verbatim>\<open>{success: false, error: m}\<close>, where \<open>m\<close> is the carried message when it is not empty
  and "Server Error" otherwise; the status is the carried status code when one is
  carried and it is not 0, and 500 otherwise.
\<close>

theorem errorHandler_envelope:
  "(message err \<noteq> [] \<longrightarrow>
      payload (errorHandler err) =
        JObj [(''success'', JBool False), (''error'', JStr (message err))])
   \<and> (message err = [] \<longrightarrow>
      payload (errorHandler err) =
        JObj [(''success'', JBool False), (''error'', JStr ''Server Error'')])
   \<and> (statusCode err = Some c \<and> c \<noteq> 0 \<longrightarrow> status (errorHandler err) = c)
   \<and> (statusCode err = None \<or> statusCode err = Some 0 \<longrightarrow> status (errorHandler err) = 500)"
  by (auto simp add: errorHandler_def respond_def)

theorem errorHandler_envelope_witness:
  "payload (errorHandler not_found) =
     JObj [(''success'', JBool False), (''error'', JStr ''User not found'')]
   \<and> status (errorHandler not_found) = 404
   \<and> payload (errorHandler (new_Error [])) =
     JObj [(''success'', JBool False), (''error'', JStr ''Server Error'')]
   \<and> status (errorHandler (new_Error [])) = 500"
  using errorHandler_envelope [of not_found 404] errorHandler_envelope [of "new_Error []" 0]
  by (simp add: not_found_def new_Error_def)

section \<open>The authentication gate\<close>

lemma split_on_no_sep: "c \<notin> set s \<Longrightarrow> split_on c s = [s]"
  by (induction s) auto

lemma bearer_token_absent: "authorization req = None \<Longrightarrow> bearer_token req = None"
  by (simp add: bearer_token_def)

lemma bearer_token_one_part:
  "authorization req = Some h \<Longrightarrow> CHR '' '' \<notin> set h \<Longrightarrow> bearer_token req = None"
  by (simp add: bearer_token_def split_on_no_sep)

lemma authenticate_no_token:
  "bearer_token req = None \<Longrightarrow>
     authenticate L req = Inl \<lparr>statusCode = Some 401, message = ''Authentication required''\<rparr>"
  by (simp add: authenticate_def authenticate_try_def new_Error_def)

lemma authenticate_bad_token:
  "bearer_token req = Some t \<Longrightarrow> t \<noteq> [] \<Longrightarrow> jwt_verify L t = Inl e \<Longrightarrow>
     authenticate L req = Inl (e\<lparr>statusCode := Some 401\<rparr>)"
  by (simp add: authenticate_def authenticate_try_def)

text \<open>The gate reads the header only: the path parameters pass through it.\<close>

lemma authenticate_params:
  "authenticate L (req\<lparr>params := b\<rparr>) =
     (case authenticate L req of Inl e \<Rightarrow> Inl e | Inr r \<Rightarrow> Inr (r\<lparr>params := b\<rparr>))"
  by (simp add: authenticate_def authenticate_try_def bearer_token_def
           split: option.splits sum.splits)

lemma userRoutes_rejected:
  "dispatch routes (verb req) (path req) = Some (h, b) \<Longrightarrow> authenticate L req = Inl e \<Longrightarrow>
     userRoutes L now req srv = Some (errorHandler e, srv)"
  by (simp add: userRoutes_def protected_def authenticate_params)

lemma userRoutes_admitted:
  "dispatch routes (verb req) (path req) = Some (h, b) \<Longrightarrow> authenticate L req = Inr req' \<Longrightarrow>
     userRoutes L now req srv =
       Some (case run_handler L now h (req'\<lparr>params := b\<rparr>) srv of
               (Inl e, srv') \<Rightarrow> (errorHandler e, srv')
             | (Inr r, srv') \<Rightarrow> (r, srv'))"
  by (simp add: userRoutes_def protected_def authenticate_params)

lemma errorHandler_auth_required:
  "errorHandler \<lparr>statusCode = Some 401, message = ''Authentication required''\<rparr> =
     respond 401 (JObj [(''success'', JBool False), (''error'', JStr ''Authentication required'')])"
  by (simp add: errorHandler_def)

text \<open>
  C2: on every route of the user router, a request without an Authorization header is
  answered 401 "Authentication required", and a request whose token the token service
  rejects (expired, bad signature, malformed) is answered 401 with the token service's
  error. In both cases the answer and the store are the same whatever handler stands
  behind the gate: the handler is not run.
\<close>

theorem gate_rejects_before_handler:
  assumes "dispatch routes (verb req) (path req) = Some (h, b)"
  shows "(authorization req = None \<longrightarrow>
            userRoutes L now req srv =
              Some (respond 401 (JObj [(''success'', JBool False),
                                       (''error'', JStr ''Authentication required'')]), srv)
            \<and> (\<forall>handler. protected L handler (req\<lparr>params := b\<rparr>) srv =
                  (respond 401 (JObj [(''success'', JBool False),
                                      (''error'', JStr ''Authentication required'')]), srv)))
       \<and> (bearer_token req = Some t \<and> t \<noteq> [] \<and> jwt_verify L t = Inl e \<longrightarrow>
            userRoutes L now req srv = Some (errorHandler (e\<lparr>statusCode := Some 401\<rparr>), srv)
            \<and> status (errorHandler (e\<lparr>statusCode := Some 401\<rparr>)) = 401
            \<and> field (payload (errorHandler (e\<lparr>statusCode := Some 401\<rparr>))) ''success'' = JBool False
            \<and> (\<forall>handler. protected L handler (req\<lparr>params := b\<rparr>) srv =
                  (errorHandler (e\<lparr>statusCode := Some 401\<rparr>), srv)))"
proof (intro conjI impI allI)
  assume none: "authorization req = None"
  then have a: "authenticate L req =
                  Inl \<lparr>statusCode = Some 401, message = ''Authentication required''\<rparr>"
    by (simp add: authenticate_no_token bearer_token_absent)
  show "userRoutes L now req srv =
          Some (respond 401 (JObj [(''success'', JBool False),
                                   (''error'', JStr ''Authentication required'')]), srv)"
    using userRoutes_rejected [OF assms a] by (simp add: errorHandler_auth_required)
  fix handler :: "request \<Rightarrow> server \<Rightarrow> (js_error + response) \<times> server"
  show "protected L handler (req\<lparr>params := b\<rparr>) srv =
          (respond 401 (JObj [(''success'', JBool False),
                              (''error'', JStr ''Authentication required'')]), srv)"
    using a by (simp add: protected_def authenticate_params errorHandler_auth_required)
next
  assume bad: "bearer_token req = Some t \<and> t \<noteq> [] \<and> jwt_verify L t = Inl e"
  then have a: "authenticate L req = Inl (e\<lparr>statusCode := Some 401\<rparr>)"
    by (simp add: authenticate_bad_token)
  show "userRoutes L now req srv = Some (errorHandler (e\<lparr>statusCode := Some 401\<rparr>), srv)"
    using userRoutes_rejected [OF assms a] .
  show "status (errorHandler (e\<lparr>statusCode := Some 401\<rparr>)) = 401"
    by (simp add: errorHandler_def respond_def)
  show "field (payload (errorHandler (e\<lparr>statusCode := Some 401\<rparr>))) ''success'' = JBool False"
    by (simp add: errorHandler_def respond_def)
  fix handler :: "request \<Rightarrow> server \<Rightarrow> (js_error + response) \<times> server"
  show "protected L handler (req\<lparr>params := b\<rparr>) srv =
          (errorHandler (e\<lparr>statusCode := Some 401\<rparr>), srv)"
    using a by (simp add: protected_def authenticate_params)
qed

theorem gate_rejects_before_handler_witness:
  "userRoutes stub_lib 5000 (anonymous GET [''users''] JUndefined) two_users =
     Some (respond 401 (JObj [(''success'', JBool False),
                              (''error'', JStr ''Authentication required'')]), two_users)
   \<and> userRoutes stub_lib 5000
        ((anonymous GET [''users''] JUndefined)\<lparr>authorization := Some ''Bearer old.token''\<rparr>)
        two_users =
     Some (respond 401 (JObj [(''success'', JBool False), (''error'', JStr ''jwt expired'')]),
           two_users)
   \<and> protected stub_lib (\<lambda>r s. (Inr (respond 200 JNull), boot 0))
        ((anonymous GET [''users''] JUndefined)\<lparr>params := []\<rparr>) two_users =
     (respond 401 (JObj [(''success'', JBool False),
                         (''error'', JStr ''Authentication required'')]), two_users)"
proof -
  let ?r1 = "anonymous GET [''users''] JUndefined"
  let ?r2 = "?r1\<lparr>authorization := Some ''Bearer old.token''\<rparr>"
  have d1: "dispatch routes (verb ?r1) (path ?r1) = Some (ListAll, [])"
    by (simp add: anonymous_def routes_def)
  have d2: "dispatch routes (verb ?r2) (path ?r2) = Some (ListAll, [])"
    by (simp add: anonymous_def routes_def)
  have n: "authorization ?r1 = None"
    by (simp add: anonymous_def)
  have t: "bearer_token ?r2 = Some ''old.token'' \<and> ''old.token'' \<noteq> []
           \<and> jwt_verify stub_lib ''old.token'' = Inl (new_Error ''jwt expired'')"
    by (simp add: bearer_token_def anonymous_def stub_lib_def)
  have e: "errorHandler ((new_Error ''jwt expired'')\<lparr>statusCode := Some 401\<rparr>) =
           respond 401 (JObj [(''success'', JBool False), (''error'', JStr ''jwt expired'')])"
    by (simp add: errorHandler_def new_Error_def)
  from gate_rejects_before_handler
         [OF d1, where L = stub_lib and now = 5000 and srv = two_users] n
       gate_rejects_before_handler
         [OF d2, where L = stub_lib and now = 5000 and srv = two_users
            and t = "''old.token''" and e = "new_Error ''jwt expired''"] t e
  show ?thesis by simp
qed

text \<open>
  C10: when the Authorization header has no space in it (the bare word "Bearer", or a
  raw token without the prefix), there is no second part, and every route of the user
  router answers 401 "Authentication required". The token service plays no part: the
  answer is the same whatever it would say of any token.
\<close>

theorem header_without_second_part:
  assumes "dispatch routes (verb req) (path req) = Some (h, b)"
      and "authorization req = Some hdr"
      and "CHR '' '' \<notin> set hdr"
  shows "authenticate L req =
           Inl \<lparr>statusCode = Some 401, message = ''Authentication required''\<rparr>
       \<and> userRoutes L now req srv =
           Some (respond 401 (JObj [(''success'', JBool False),
                                    (''error'', JStr ''Authentication required'')]), srv)
       \<and> (\<forall>verify. userRoutes (L\<lparr>jwt_verify := verify\<rparr>) now req srv = userRoutes L now req srv)"
proof -
  have tok: "bearer_token req = None"
    using assms(2,3) by (rule bearer_token_one_part)
  have a: "\<And>K. authenticate K req =
             Inl \<lparr>statusCode = Some 401, message = ''Authentication required''\<rparr>"
    using tok by (rule authenticate_no_token)
  have u: "\<And>K. userRoutes K now req srv =
             Some (respond 401 (JObj [(''success'', JBool False),
                                      (''error'', JStr ''Authentication required'')]), srv)"
    using userRoutes_rejected [OF assms(1) a] by (simp add: errorHandler_auth_required)
  show ?thesis using a u by simp
qed

theorem header_without_second_part_witness:
  "userRoutes stub_lib 5000
     ((anonymous GET [''users''] JUndefined)\<lparr>authorization := Some ''good.token''\<rparr>) two_users =
   Some (respond 401 (JObj [(''success'', JBool False),
                            (''error'', JStr ''Authentication required'')]), two_users)
   \<and> userRoutes stub_lib 5000
     ((anonymous GET [''users''] JUndefined)\<lparr>authorization := Some ''Bearer''\<rparr>) two_users =
   Some (respond 401 (JObj [(''success'', JBool False),
                            (''error'', JStr ''Authentication required'')]), two_users)"
proof -
  let ?r1 = "(anonymous GET [''users''] JUndefined)\<lparr>authorization := Some ''good.token''\<rparr>"
  let ?r2 = "(anonymous GET [''users''] JUndefined)\<lparr>authorization := Some ''Bearer''\<rparr>"
  have d1: "dispatch routes (verb ?r1) (path ?r1) = Some (ListAll, [])"
    by (simp add: anonymous_def routes_def)
  have d2: "dispatch routes (verb ?r2) (path ?r2) = Some (ListAll, [])"
    by (simp add: anonymous_def routes_def)
  have h1: "authorization ?r1 = Some ''good.token''" by simp
  have h2: "authorization ?r2 = Some ''Bearer''" by simp
  have s1: "CHR '' '' \<notin> set ''good.token''" by simp
  have s2: "CHR '' '' \<notin> set ''Bearer''" by simp
  from header_without_second_part
         [OF d1 h1 s1, where L = stub_lib and now = 5000 and srv = two_users]
       header_without_second_part
         [OF d2 h2 s2, where L = stub_lib and now = 5000 and srv = two_users]
  show ?thesis by simp
qed

section \<open>Login\<close>

text \<open>
  Where the password is a string, the two failures of a login are answered alike: an
  email that matches no admin record, and an email that matches with a comparison that
  returns false, both give 401 "Invalid Email or Password".
\<close>

lemma login_string_password_failures_alike:
  assumes "truthy (field (body req) ''email'')"
      and "field (body req) ''password'' = JStr p" and "p \<noteq> []"
  shows "(Admin_findOne L (field (body req) ''email'') = Inr None \<longrightarrow>
            login L req = respond 401 (JObj [(''success'', JBool False),
                                             (''message'', JStr ''Invalid Email or Password'')]))
       \<and> (Admin_findOne L (field (body req) ''email'') = Inr (Some a)
            \<and> bcrypt_compare_strings L p (a_password a) = Inr False \<longrightarrow>
            login L req = respond 401 (JObj [(''success'', JBool False),
                                             (''message'', JStr ''Invalid Email or Password'')]))"
  using assms by (auto simp add: login_def login_handler_def bcrypt_compare_def Let_def)

lemma bcrypt_compare_not_string:
  assumes "truthy v" and "\<not> is_string v"
  shows "bcrypt_compare L v h = Inl (new_Error ''data and hash must be strings'')"
  using assms by (cases v) (simp_all add: bcrypt_compare_def)

lemma errorHandler_must_be_strings:
  "errorHandler (new_Error ''data and hash must be strings'') =
     respond 500 (JObj [(''success'', JBool False),
                        (''error'', JStr ''data and hash must be strings'')])"
  by (simp add: errorHandler_def new_Error_def)

text \<open>
  C1: the specification has every failed login answered with the same status and message,
  whether the email is unknown or the password comparison fails. In the code the
  comparison fails by throwing when the password is present but not a string (a number,
  say): for two login requests with the same such password, the one whose email matches
  no admin record is answered 401 "Invalid Email or Password", and the one whose email
  matches is answered 500 "data and hash must be strings" by the error translator. The
  two answers differ in status and in body, so the response tells a known email from an
  unknown one.
\<close>

theorem login_reveals_known_email:
  assumes "truthy (field (body unknown) ''email'')"
      and "truthy (field (body known) ''email'')"
      and "field (body unknown) ''password'' = pw" and "field (body known) ''password'' = pw"
      and "truthy pw" and "\<not> is_string pw"
      and "Admin_findOne L (field (body unknown) ''email'') = Inr None"
      and "Admin_findOne L (field (body known) ''email'') = Inr (Some a)"
  shows "login L unknown =
           respond 401 (JObj [(''success'', JBool False),
                              (''message'', JStr ''Invalid Email or Password'')])
       \<and> login L known =
           respond 500 (JObj [(''success'', JBool False),
                              (''error'', JStr ''data and hash must be strings'')])
       \<and> status (login L unknown) \<noteq> status (login L known)"
proof -
  have u: "login L unknown =
           respond 401 (JObj [(''success'', JBool False),
                              (''message'', JStr ''Invalid Email or Password'')])"
    using assms(1,3,5,7) by (simp add: login_def login_handler_def Let_def)
  have "login_handler L known = Inl (new_Error ''data and hash must be strings'')"
    using assms(2,4,5,8) bcrypt_compare_not_string [OF assms(5,6)]
    by (simp add: login_handler_def Let_def)
  then have k: "login L known =
           respond 500 (JObj [(''success'', JBool False),
                              (''error'', JStr ''data and hash must be strings'')])"
    by (simp add: login_def errorHandler_must_be_strings)
  show ?thesis using u k by (simp add: respond_def)
qed

theorem login_reveals_known_email_witness:
  "login stub_lib (login_request ''ghost@example.com'' (JNum 123456)) =
     respond 401 (JObj [(''success'', JBool False),
                        (''message'', JStr ''Invalid Email or Password'')])
   \<and> login stub_lib (login_request ''admin@example.com'' (JNum 123456)) =
     respond 500 (JObj [(''success'', JBool False),
                        (''error'', JStr ''data and hash must be strings'')])"
proof -
  let ?u = "login_request ''ghost@example.com'' (JNum 123456)"
  let ?k = "login_request ''admin@example.com'' (JNum 123456)"
  have e1: "truthy (field (body ?u) ''email'')" and e2: "truthy (field (body ?k) ''email'')"
    by (simp_all add: login_request_def anonymous_def)
  have p1: "field (body ?u) ''password'' = JNum 123456"
    and p2: "field (body ?k) ''password'' = JNum 123456"
    by (simp_all add: login_request_def anonymous_def)
  have t: "truthy (JNum 123456)" and n: "\<not> is_string (JNum 123456)"
    by simp_all
  have f1: "Admin_findOne stub_lib (field (body ?u) ''email'') = Inr None"
    and f2: "Admin_findOne stub_lib (field (body ?k) ''email'') = Inr (Some the_admin)"
    by (simp_all add: login_request_def anonymous_def stub_lib_def the_admin_def)
  from login_reveals_known_email [OF e1 e2 p1 p2 t n f1 f2]
  show ?thesis by simp
qed

section \<open>Routes that never reach their handler\<close>

lemma authenticate_authed:
  "authenticate stub_lib (authed m p b) = Inr ((authed m p b)\<lparr>user := JObj [(''id'', JStr (a_id the_admin))]\<rparr>)"
  by (simp add: authenticate_def authenticate_try_def bearer_token_def authed_def stub_lib_def)

lemma castObjectId_bulk: "castObjectId L ''bulk'' = None"
  by (simp add: castObjectId_def)

lemma delete_user_throws:
  "delete_user L i srv = (Inl (new_Error ''User.deleteById is not a function''), srv)"
  by (simp add: delete_user_def User_member_def)

lemma errorHandler_TypeError:
  "errorHandler (new_Error ''User.deleteById is not a function'') =
     respond 500 (JObj [(''success'', JBool False),
                        (''error'', JStr ''User.deleteById is not a function'')])"
  by (simp add: errorHandler_def new_Error_def)

lemma dispatch_delete: "i \<noteq> [] \<Longrightarrow> dispatch routes DELETE [''users'', i] = Some (DeleteOne, [(''id'', i)])"
  by (simp add: routes_def)

lemma dispatch_put: "i \<noteq> [] \<Longrightarrow> dispatch routes PUT [''users'', i] = Some (UpdateOne, [(''id'', i)])"
  by (simp add: routes_def)

lemma dispatch_get_one:
  "i \<noteq> [] \<Longrightarrow> dispatch routes GET [''users'', i] = Some (ReadOne, [(''id'', i)])"
  by (simp add: routes_def)

lemma dispatch_search:
  "k \<noteq> [] \<Longrightarrow> dispatch routes GET [''search'', k] = Some (Search, [(''key'', k)])"
  by (simp add: routes_def)

lemma dispatch_page:
  "p \<noteq> [] \<Longrightarrow> dispatch routes GET [''users'', ''page'', p] = Some (Paginate, [(''page'', p)])"
  by (simp add: routes_def)

lemma dispatch_post: "dispatch routes POST [''users''] = Some (CreateOne, [])"
  by (simp add: routes_def)

lemma param_hit [simp]: "param (r\<lparr>params := [(k, v)]\<rparr>) k = v"
  by (simp add: param_def)

lemma authenticate_verb:
  "authenticate L (req\<lparr>verb := m\<rparr>) =
     (case authenticate L req of Inl e \<Rightarrow> Inl e | Inr r \<Rightarrow> Inr (r\<lparr>verb := m\<rparr>))"
  by (simp add: authenticate_def authenticate_try_def bearer_token_def
           split: option.splits sum.splits)

lemma castObjectId_bob: "castObjectId L (uid bob) = Some (uid bob)"
  by (simp add: castObjectId_def bob_def is_hex_def toLowerCase_def to_lower_def)

text \<open>
  C3: the specification has DELETE /users/bulk delete the matching records and answer
  \<^verbatim>\<open>deleted: N\<close>, then \<^verbatim>\<open>deleted: 0\<close>. In the code the route DELETE /users/:id is registered
  first and takes the request with \<^verbatim>\<open>id = "bulk"\<close>; its handler calls a member the model
  does not have. Every authenticated DELETE /users/bulk is answered 500 and deletes
  nothing, the first time and every time after.
\<close>

theorem bulk_delete_always_fails:
  assumes "verb req = DELETE" and "path req = [''users'', ''bulk'']"
      and "authenticate L req = Inr req'"
  shows "dispatch routes (verb req) (path req) = Some (DeleteOne, [(''id'', ''bulk'')])
       \<and> userRoutes L now req srv =
           Some (respond 500 (JObj [(''success'', JBool False),
                                    (''error'', JStr ''User.deleteById is not a function'')]), srv)"
proof -
  have d: "dispatch routes (verb req) (path req) = Some (DeleteOne, [(''id'', ''bulk'')])"
    using assms(1,2) by (simp add: dispatch_delete)
  show ?thesis
    using d userRoutes_admitted [OF d assms(3), of now srv]
    by (simp add: delete_user_throws errorHandler_TypeError)
qed

theorem bulk_delete_always_fails_witness:
  "userRoutes stub_lib 5000
     (authed DELETE [''users'', ''bulk''] (JObj [(''ids'', JArr [JStr (uid bob)])])) two_users =
   Some (respond 500 (JObj [(''success'', JBool False),
                            (''error'', JStr ''User.deleteById is not a function'')]), two_users)"
proof -
  let ?r = "authed DELETE [''users'', ''bulk''] (JObj [(''ids'', JArr [JStr (uid bob)])])"
  have v: "verb ?r = DELETE" and p: "path ?r = [''users'', ''bulk'']"
    by (simp_all add: authed_def)
  from bulk_delete_always_fails [OF v p authenticate_authed, of 5000 two_users]
  show ?thesis by simp
qed

text \<open>
  C4: the specification has PUT /users/bulk apply each pair and answer the modified
  count. In the code the route PUT /users/:id is registered first and takes the request
  with \<^verbatim>\<open>id = "bulk"\<close>, which is no document id: every authenticated PUT /users/bulk is
  answered 500 with the cast failure and changes nothing.
\<close>

theorem bulk_update_always_fails:
  assumes "verb req = PUT" and "path req = [''users'', ''bulk'']"
      and "authenticate L req = Inr req'"
  shows "dispatch routes (verb req) (path req) = Some (UpdateOne, [(''id'', ''bulk'')])
       \<and> userRoutes L now req srv = Some (errorHandler (CastError ''bulk''), srv)
       \<and> status (errorHandler (CastError ''bulk'')) = 500
       \<and> field (payload (errorHandler (CastError ''bulk''))) ''success'' = JBool False"
proof -
  have d: "dispatch routes (verb req) (path req) = Some (UpdateOne, [(''id'', ''bulk'')])"
    using assms(1,2) by (simp add: dispatch_put)
  have u: "update_user L ''bulk'' r srv = (Inl (CastError ''bulk''), srv)" for r
    by (simp add: update_user_def User_findByIdAndUpdate_def castObjectId_bulk)
  have "userRoutes L now req srv = Some (errorHandler (CastError ''bulk''), srv)"
    using userRoutes_admitted [OF d assms(3), of now srv] by (simp add: u)
  then show ?thesis
    using d by (simp add: errorHandler_def CastError_def new_Error_def respond_def)
qed

theorem bulk_update_always_fails_witness:
  "userRoutes stub_lib 5000
     (authed PUT [''users'', ''bulk'']
        (JArr [JObj [(''id'', JStr (uid bob)), (''data'', JObj [(''age'', JNum 31)])]]))
     two_users =
   Some (errorHandler (CastError ''bulk''), two_users)
   \<and> status (errorHandler (CastError ''bulk'')) = 500"
proof -
  let ?r = "authed PUT [''users'', ''bulk'']
        (JArr [JObj [(''id'', JStr (uid bob)), (''data'', JObj [(''age'', JNum 31)])]])"
  have v: "verb ?r = PUT" and p: "path ?r = [''users'', ''bulk'']"
    by (simp_all add: authed_def)
  from bulk_update_always_fails [OF v p authenticate_authed, of 5000 two_users]
  show ?thesis by simp
qed

text \<open>
  C5: the specification has DELETE /users/:id remove the record (or answer 404), so that a
  following GET answers 404. In the code the handler calls \<^verbatim>\<open>User.deleteById\<close>, which the
  model does not have: every authenticated DELETE /users/:id is answered 500 and removes
  nothing, and a following GET of an existing record still answers 200 with the record.
\<close>

theorem delete_one_always_fails:
  assumes "verb req = DELETE" and "path req = [''users'', i]" and "i \<noteq> []"
      and "authenticate L req = Inr req'"
  shows "userRoutes L now req srv =
           Some (respond 500 (JObj [(''success'', JBool False),
                                    (''error'', JStr ''User.deleteById is not a function'')]), srv)
       \<and> (castObjectId L i = Some oid \<and> find (\<lambda>u. uid u = oid) (users srv) = Some u \<longrightarrow>
            (case userRoutes L now req srv of
               None \<Rightarrow> None
             | Some (r, srv') \<Rightarrow> userRoutes L later (req\<lparr>verb := GET\<rparr>) srv') =
            Some (respond 200 (JObj [(''success'', JBool True), (''data'', user_json u)]), srv))"
proof -
  have d: "dispatch routes (verb req) (path req) = Some (DeleteOne, [(''id'', i)])"
    using assms(1,2,3) by (simp add: dispatch_delete)
  have del: "userRoutes L now req srv =
           Some (respond 500 (JObj [(''success'', JBool False),
                                    (''error'', JStr ''User.deleteById is not a function'')]), srv)"
    using userRoutes_admitted [OF d assms(4), of now srv]
    by (simp add: delete_user_throws errorHandler_TypeError)
  have g: "dispatch routes (verb (req\<lparr>verb := GET\<rparr>)) (path (req\<lparr>verb := GET\<rparr>)) =
             Some (ReadOne, [(''id'', i)])"
    using assms(2,3) by (simp add: dispatch_get_one)
  have a: "authenticate L (req\<lparr>verb := GET\<rparr>) = Inr (req'\<lparr>verb := GET\<rparr>)"
    using assms(4) by (simp add: authenticate_verb)
  have get: "userRoutes L later (req\<lparr>verb := GET\<rparr>) srv =
               Some (respond 200 (JObj [(''success'', JBool True), (''data'', user_json u)]), srv)"
    if "castObjectId L i = Some oid" and "find (\<lambda>u. uid u = oid) (users srv) = Some u"
    using userRoutes_admitted [OF g a, of later srv] that
    by (simp add: get_user_def User_findById_def ok_def)
  show ?thesis using del get by simp
qed

theorem delete_one_always_fails_witness:
  "userRoutes stub_lib 5000 (authed DELETE [''users'', uid bob] JUndefined) two_users =
     Some (respond 500 (JObj [(''success'', JBool False),
                              (''error'', JStr ''User.deleteById is not a function'')]), two_users)
   \<and> userRoutes stub_lib 6000 (authed GET [''users'', uid bob] JUndefined) two_users =
     Some (respond 200 (JObj [(''success'', JBool True), (''data'', user_json bob)]), two_users)"
proof -
  let ?r = "authed DELETE [''users'', uid bob] JUndefined"
  have v: "verb ?r = DELETE" and p: "path ?r = [''users'', uid bob]" and n: "uid bob \<noteq> []"
    by (simp_all add: authed_def bob_def)
  have g: "?r\<lparr>verb := GET\<rparr> = authed GET [''users'', uid bob] JUndefined"
    by (simp add: authed_def)
  have f: "castObjectId stub_lib (uid bob) = Some (uid bob)
           \<and> find (\<lambda>u. uid u = uid bob) (users two_users) = Some bob"
    by (simp add: castObjectId_bob two_users_def)
  note th = delete_one_always_fails
         [OF v p n authenticate_authed, where now = 5000 and srv = two_users and later = 6000
            and oid = "uid bob" and u = bob]
  from th have del: "userRoutes stub_lib 5000 ?r two_users =
     Some (respond 500 (JObj [(''success'', JBool False),
                              (''error'', JStr ''User.deleteById is not a function'')]), two_users)"
    by (rule conjunct1)
  from th f have "(case userRoutes stub_lib 5000 ?r two_users of
               None \<Rightarrow> None
             | Some (r, srv') \<Rightarrow> userRoutes stub_lib 6000 (?r\<lparr>verb := GET\<rparr>) srv') =
            Some (respond 200 (JObj [(''success'', JBool True), (''data'', user_json bob)]), two_users)"
    by blast
  then have "userRoutes stub_lib 6000 (?r\<lparr>verb := GET\<rparr>) two_users =
            Some (respond 200 (JObj [(''success'', JBool True), (''data'', user_json bob)]), two_users)"
    by (simp only: del option.case prod.case)
  with del g show ?thesis by simp
qed

section \<open>Search\<close>

lemma authenticate_only_attaches:
  "authenticate L req = Inr req' \<Longrightarrow> req' = req\<lparr>user := user req'\<rparr>"
  by (auto simp add: authenticate_def authenticate_try_def split: option.splits sum.splits if_splits)

lemma parse_simple_literal:
  "list_all (\<lambda>c. \<not> metachar c) k \<Longrightarrow> parse_simple k = Some (map Literal k)"
  by (induction k) (auto simp add: metachar_def)

lemma match_here_Nil: "match_here as [] = (as = [])"
  by (cases as) simp_all

lemma match_here_literal:
  "match_here (map Literal k) s = prefix (toLowerCase k) (toLowerCase s)"
proof (induction k arbitrary: s)
  case Nil
  then show ?case by (simp add: toLowerCase_def)
next
  case (Cons c k)
  show ?case
  proof (cases s)
    case Nil
    then show ?thesis by (simp add: toLowerCase_def)
  next
    case (Cons x xs)
    then show ?thesis using Cons.IH [of xs] by (auto simp add: toLowerCase_def)
  qed
qed

lemma search_literal:
  "search (map Literal k) s = contains_ignoring_case k s"
proof (induction s)
  case Nil
  then show ?case
    by (simp add: contains_ignoring_case_def match_here_Nil toLowerCase_def)
next
  case (Cons x xs)
  have "sublist (toLowerCase k) (toLowerCase (x # xs)) =
          (prefix (toLowerCase k) (toLowerCase (x # xs)) \<or> sublist (toLowerCase k) (toLowerCase xs))"
    by (simp add: toLowerCase_def sublist_Cons_right)
  then show ?case
    using Cons.IH by (simp add: contains_ignoring_case_def match_here_literal)
qed

lemma User_find_regex_plain:
  assumes "list_all (\<lambda>c. \<not> metachar c) key"
  shows "User_find_regex L key srv =
           Inr (filter (\<lambda>u. contains_ignoring_case key (name u) \<or> contains_ignoring_case key (email u))
                  (users srv))"
  by (simp add: User_find_regex_def regex_i_def parse_simple_literal [OF assms] search_literal)

lemma bob_regex:
  "search [Literal CHR ''b'', AnyChar, Literal CHR ''b''] (name bob)"
  "\<not> search [Literal CHR ''b'', AnyChar, Literal CHR ''b''] (name carol)"
  "\<not> search [Literal CHR ''b'', AnyChar, Literal CHR ''b''] (email carol)"
  by code_simp+

lemma bob_no_substring:
  "\<not> contains_ignoring_case ''b.b'' (name bob)"
  "\<not> contains_ignoring_case ''b.b'' (email bob)"
  by code_simp+

text \<open>
  C7, as the specification states it, fails for a key with a regular-expression
  metacharacter: the key is handed to the store as a pattern, so \<^verbatim>\<open>b.b\<close> finds the record
  named "Bob", though neither its name nor its email contains the three characters
  \<^verbatim>\<open>b.b\<close>.
\<close>

theorem search_dot_key_counterexample:
  "userRoutes stub_lib 5000 (authed GET [''search'', ''b.b''] JUndefined) two_users =
     Some (respond 200 (JObj [(''success'', JBool True), (''count'', JNum 1),
                              (''data'', JArr [user_json bob])]), two_users)
   \<and> \<not> contains_ignoring_case ''b.b'' (name bob)
   \<and> \<not> contains_ignoring_case ''b.b'' (email bob)"
proof -
  let ?r = "authed GET [''search'', ''b.b''] JUndefined"
  have d: "dispatch routes (verb ?r) (path ?r) = Some (Search, [(''key'', ''b.b'')])"
    by (simp add: authed_def dispatch_search)
  have p: "parse_simple ''b.b'' = Some [Literal CHR ''b'', AnyChar, Literal CHR ''b'']"
    by (simp add: metachar_def)
  have f: "User_find_regex stub_lib ''b.b'' two_users = Inr [bob]"
    by (simp add: User_find_regex_def regex_i_def metachar_def two_users_def bob_regex)
  have "userRoutes stub_lib 5000 ?r two_users =
     Some (respond 200 (JObj [(''success'', JBool True), (''count'', JNum 1),
                              (''data'', JArr [user_json bob])]), two_users)"
    using userRoutes_admitted [OF d authenticate_authed, of 5000 two_users]
    by (simp add: search_users_def f ok_def count_of_def)
  then show ?thesis using bob_no_substring by simp
qed

text \<open>
  C7, amended: for every authenticated GET /search/:key whose key has no
  regular-expression metacharacter, the response is success with exactly the user
  records, in the store's order, whose name or email contains the key as a substring,
  letter case ignored, and with their count; when no record matches, it is success with
  count 0 and the empty list.
\<close>

theorem search_plain_key:
  assumes "verb req = GET" and "path req = [''search'', key]" and "key \<noteq> []"
      and "list_all (\<lambda>c. \<not> metachar c) key"
      and "authenticate L req = Inr req'"
  shows "(let matches = filter (\<lambda>u. contains_ignoring_case key (name u)
                                      \<or> contains_ignoring_case key (email u)) (users srv)
          in userRoutes L now req srv =
               Some (respond 200 (JObj [(''success'', JBool True),
                                        (''count'', JNum (int (length matches))),
                                        (''data'', JArr (map user_json matches))]), srv))
       \<and> ((\<forall>u \<in> set (users srv). \<not> contains_ignoring_case key (name u)
                                    \<and> \<not> contains_ignoring_case key (email u)) \<longrightarrow>
            userRoutes L now req srv =
               Some (respond 200 (JObj [(''success'', JBool True), (''count'', JNum 0),
                                        (''data'', JArr [])]), srv))"
proof -
  let ?P = "\<lambda>u. contains_ignoring_case key (name u) \<or> contains_ignoring_case key (email u)"
  have d: "dispatch routes (verb req) (path req) = Some (Search, [(''key'', key)])"
    using assms(1,2,3) by (simp add: dispatch_search)
  have r: "userRoutes L now req srv =
             Some (respond 200 (JObj [(''success'', JBool True),
                                      (''count'', JNum (int (length (filter ?P (users srv))))),
                                      (''data'', JArr (map user_json (filter ?P (users srv))))]), srv)"
    using userRoutes_admitted [OF d assms(5), of now srv]
    by (simp add: search_users_def User_find_regex_plain [OF assms(4)] ok_def count_of_def)
  have z: "filter ?P (users srv) = []"
    if "\<forall>u \<in> set (users srv). \<not> contains_ignoring_case key (name u)
                                 \<and> \<not> contains_ignoring_case key (email u)"
    using that by (auto simp add: filter_empty_conv)
  show ?thesis using r z by (simp add: Let_def)
qed

lemma ob_matches:
  "contains_ignoring_case ''OB'' (name bob)"
  "\<not> contains_ignoring_case ''OB'' (name carol)"
  "\<not> contains_ignoring_case ''OB'' (email carol)"
  "\<not> contains_ignoring_case ''zzz'' (name bob)"
  "\<not> contains_ignoring_case ''zzz'' (email bob)"
  "\<not> contains_ignoring_case ''zzz'' (name carol)"
  "\<not> contains_ignoring_case ''zzz'' (email carol)"
  by code_simp+

theorem search_plain_key_witness:
  "userRoutes stub_lib 5000 (authed GET [''search'', ''OB''] JUndefined) two_users =
     Some (respond 200 (JObj [(''success'', JBool True), (''count'', JNum 1),
                              (''data'', JArr [user_json bob])]), two_users)
   \<and> userRoutes stub_lib 5000 (authed GET [''search'', ''zzz''] JUndefined) two_users =
     Some (respond 200 (JObj [(''success'', JBool True), (''count'', JNum 0),
                              (''data'', JArr [])]), two_users)"
proof -
  let ?r1 = "authed GET [''search'', ''OB''] JUndefined"
  let ?r2 = "authed GET [''search'', ''zzz''] JUndefined"
  have v1: "verb ?r1 = GET" and p1: "path ?r1 = [''search'', ''OB'']"
    and v2: "verb ?r2 = GET" and p2: "path ?r2 = [''search'', ''zzz'']"
    by (simp_all add: authed_def)
  have n1: "''OB'' \<noteq> []" and n2: "''zzz'' \<noteq> []" by simp_all
  have m1: "list_all (\<lambda>c. \<not> metachar c) ''OB''" and m2: "list_all (\<lambda>c. \<not> metachar c) ''zzz''"
    by (simp_all add: metachar_def)
  have none: "\<forall>u \<in> set (users two_users). \<not> contains_ignoring_case ''zzz'' (name u)
                                        \<and> \<not> contains_ignoring_case ''zzz'' (email u)"
    by (simp add: two_users_def ob_matches)
  from search_plain_key [OF v1 p1 n1 m1 authenticate_authed, where now = 5000 and srv = two_users]
  have a: "userRoutes stub_lib 5000 ?r1 two_users =
     Some (respond 200 (JObj [(''success'', JBool True), (''count'', JNum 1),
                              (''data'', JArr [user_json bob])]), two_users)"
    by (simp add: Let_def two_users_def ob_matches)
  from search_plain_key [OF v2 p2 n2 m2 authenticate_authed, where now = 5000 and srv = two_users] none
  have b: "userRoutes stub_lib 5000 ?r2 two_users =
     Some (respond 200 (JObj [(''success'', JBool True), (''count'', JNum 0),
                              (''data'', JArr [])]), two_users)"
    by blast
  from a b show ?thesis by simp
qed

section \<open>Pagination\<close>

lemma array_call_countDocuments:
  "array_call L ''users'' ''countDocuments'' us =
     Inl (new_Error ''users.countDocuments is not a function'')"
  by (simp add: array_call_def Array_methods_def)

lemma errorHandler_countDocuments:
  "errorHandler (new_Error ''users.countDocuments is not a function'') =
     respond 500 (JObj [(''success'', JBool False),
                        (''error'', JStr ''users.countDocuments is not a function'')])"
  by (simp add: errorHandler_def new_Error_def)

lemma errorHandler_success: "field (payload (errorHandler e)) ''success'' = JBool False"
  by (simp add: errorHandler_def respond_def)

text \<open>
  C8: the specification has the pagination route answer success, with a page count
  computed from the slice. In the code the handler calls \<^verbatim>\<open>countDocuments\<close> on the awaited
  array, which has no such method: every authenticated GET /users/page/:page is answered
  by the error translator with \<^verbatim>\<open>success: false\<close>, and with 500 whenever the query itself
  succeeds. No page count is ever reported.
\<close>

theorem paginate_never_succeeds:
  assumes "verb req = GET" and "path req = [''users'', ''page'', p]" and "p \<noteq> []"
      and "authenticate L req = Inr req'"
  shows "(skip_limit L (js_mul (js_sub (to_number (Some p)) (JNum 1))
                                (to_number (map_of (query req) ''limit'')))
            (opt_str (map_of (query req) ''limit'')) (users srv) = Inr us \<longrightarrow>
          userRoutes L now req srv =
            Some (respond 500 (JObj [(''success'', JBool False),
                                     (''error'', JStr ''users.countDocuments is not a function'')]),
                  srv))
       \<and> (skip_limit L (js_mul (js_sub (to_number (Some p)) (JNum 1))
                                (to_number (map_of (query req) ''limit'')))
            (opt_str (map_of (query req) ''limit'')) (users srv) = Inl e \<longrightarrow>
          userRoutes L now req srv = Some (errorHandler e, srv))
       \<and> map_option (\<lambda>(r, s). field (payload r) ''success'') (userRoutes L now req srv) =
           Some (JBool False)"
proof -
  have d: "dispatch routes (verb req) (path req) = Some (Paginate, [(''page'', p)])"
    using assms(1,2,3) by (simp add: dispatch_page)
  have q: "query req' = query req"
    by (subst authenticate_only_attaches [OF assms(4)]) simp
  let ?q = "skip_limit L (js_mul (js_sub (to_number (Some p)) (JNum 1))
                                (to_number (map_of (query req) ''limit'')))
            (opt_str (map_of (query req) ''limit'')) (users srv)"
  have u: "userRoutes L now req srv =
             Some (case ?q of
                     Inl e \<Rightarrow> (errorHandler e, srv)
                   | Inr us \<Rightarrow> (respond 500 (JObj [(''success'', JBool False),
                                     (''error'', JStr ''users.countDocuments is not a function'')]),
                                srv))"
    using userRoutes_admitted [OF d assms(4), of now srv]
    by (simp add: paginate_users_def Let_def q User_find_def array_call_countDocuments
          errorHandler_countDocuments split: sum.splits)
  show ?thesis
    by (cases ?q) (simp_all add: u errorHandler_success respond_def)
qed

theorem paginate_never_succeeds_witness:
  "userRoutes stub_lib 5000
     ((authed GET [''users'', ''page'', ''1''] JUndefined)\<lparr>query := [(''limit'', ''10'')]\<rparr>) two_users =
   Some (respond 500 (JObj [(''success'', JBool False),
                            (''error'', JStr ''users.countDocuments is not a function'')]),
         two_users)"
proof -
  let ?r = "(authed GET [''users'', ''page'', ''1''] JUndefined)\<lparr>query := [(''limit'', ''10'')]\<rparr>"
  have v: "verb ?r = GET" and p: "path ?r = [''users'', ''page'', ''1'']" and n: "''1'' \<noteq> []"
    by (simp_all add: authed_def)
  have a: "authenticate stub_lib ?r = Inr (?r\<lparr>user := JObj [(''id'', JStr (a_id the_admin))]\<rparr>)"
    by (simp add: authenticate_def authenticate_try_def bearer_token_def authed_def stub_lib_def)
  have s: "skip_limit stub_lib (js_mul (js_sub (to_number (Some ''1'')) (JNum 1))
                                (to_number (map_of (query ?r) ''limit'')))
            (opt_str (map_of (query ?r) ''limit'')) (users two_users) = Inr [bob, carol]"
    by (simp add: stub_lib_def to_number_def trim_def is_space_def parse_int_def is_digit_def
          digits_value_def opt_str_def two_users_def)
  from paginate_never_succeeds [OF v p n a, where now = 5000 and srv = two_users and us = "[bob, carol]"] s
  show ?thesis by blast
qed

section \<open>The default of createdAt\<close>

lemma field_createdAt: "field (user_json u) ''createdAt'' = JDate (createdAt u)"
  by (simp add: user_json_def split: option.splits)

lemma errorHandler_plain_status: "status (errorHandler (new_Error m)) = 500"
  by (simp add: errorHandler_def new_Error_def respond_def)

lemma User_create_default:
  assumes "User_schema srv = UserSchema t0" and "cast_fields L b = Inr inp"
      and "in_createdAt inp = None"
  shows "(\<exists>m. User_create L now b srv = (Inl (new_Error m), srv))
       \<or> (\<exists>u. User_create L now b srv = (Inr u, srv\<lparr>users := users srv @ [u]\<rparr>) \<and> createdAt u = t0)"
  using assms
  by (auto simp add: User_create_def new_document_def UserSchema_def Let_def ValidationError_def
        DuplicateKey_def split: option.splits)

text \<open>
  C9: the specification has createdAt default to the time the record is created. In the
  code the default is the value \<^verbatim>\<open>Date.now()\<close> had when the schema was built: every record
  created through POST /users without a createdAt gets the load time \<open>t0\<close> of the model,
  whatever the clock reads when it is created.
\<close>

theorem createdAt_is_load_time:
  assumes "verb req = POST" and "path req = [''users'']"
      and "authenticate L req = Inr req'"
      and "User_schema srv = UserSchema t0"
      and "cast_fields L (body req) = Inr inp" and "in_createdAt inp = None"
      and "userRoutes L now req srv = Some (r, srv')" and "status r = 201"
  shows "field (field (payload r) ''data'') ''createdAt'' = JDate t0
       \<and> (\<exists>u. users srv' = users srv @ [u] \<and> createdAt u = t0)
       \<and> User_schema srv' = UserSchema t0"
proof -
  have d: "dispatch routes (verb req) (path req) = Some (CreateOne, [])"
    using assms(1,2) by (simp add: dispatch_post)
  have b: "body (req'\<lparr>params := []\<rparr>) = body req"
    by (subst authenticate_only_attaches [OF assms(3)]) simp
  have u: "Some (r, srv') =
             Some (case create_user L now (req'\<lparr>params := []\<rparr>) srv of
                     (Inl e, s) \<Rightarrow> (errorHandler e, s)
                   | (Inr x, s) \<Rightarrow> (x, s))"
    using userRoutes_admitted [OF d assms(3), of now srv] assms(7) by simp
  from User_create_default [OF assms(4,5,6), of now]
  show ?thesis
  proof
    assume "\<exists>m. User_create L now (body req) srv = (Inl (new_Error m), srv)"
    then obtain m where "User_create L now (body req) srv = (Inl (new_Error m), srv)" ..
    then have "r = errorHandler (new_Error m)"
      using u by (simp add: create_user_def b)
    then show ?thesis using assms(8) by (simp add: errorHandler_plain_status)
  next
    assume "\<exists>u. User_create L now (body req) srv = (Inr u, srv\<lparr>users := users srv @ [u]\<rparr>)
                \<and> createdAt u = t0"
    then obtain x where x: "User_create L now (body req) srv = (Inr x, srv\<lparr>users := users srv @ [x]\<rparr>)"
      and t: "createdAt x = t0" by blast
    have "r = respond 201 (JObj [(''success'', JBool True), (''data'', user_json x)])"
      and "srv' = srv\<lparr>users := users srv @ [x]\<rparr>"
      using u x by (simp_all add: create_user_def b ok_def)
    then show ?thesis using t assms(4) by (simp add: respond_def field_createdAt)
  qed
qed

lemma authenticate_post:
  "authenticate stub_lib post_dave = Inr (post_dave\<lparr>user := JObj [(''id'', JStr (a_id the_admin))]\<rparr>)"
  "authenticate stub_lib post_erin = Inr (post_erin\<lparr>user := JObj [(''id'', JStr (a_id the_admin))]\<rparr>)"
  by (simp_all add: post_dave_def post_erin_def authenticate_authed)

lemma create_dave:
  "userRoutes stub_lib 5000 post_dave (boot 1000) =
     Some (respond 201 (JObj [(''success'', JBool True), (''data'', user_json dave)]),
           \<lparr>User_schema = UserSchema 1000, users = [dave]\<rparr>)"
proof -
  have d: "dispatch routes (verb post_dave) (path post_dave) = Some (CreateOne, [])"
    by (simp add: post_dave_def authed_def dispatch_post)
  show ?thesis
    using userRoutes_admitted [OF d authenticate_post(1), of 5000 "boot 1000"]
    by (simp add: create_user_def User_create_def new_document_def validation_errors_def
          stub_lib_def str_field_def post_dave_def authed_def boot_def UserSchema_def
          trim_def is_space_def toLowerCase_def to_lower_def dave_def ok_def Let_def)
qed

lemma create_erin:
  "userRoutes stub_lib 9000 post_erin \<lparr>User_schema = UserSchema 1000, users = [dave]\<rparr> =
     Some (respond 201 (JObj [(''success'', JBool True), (''data'', user_json erin)]),
           \<lparr>User_schema = UserSchema 1000, users = [dave, erin]\<rparr>)"
proof -
  have d: "dispatch routes (verb post_erin) (path post_erin) = Some (CreateOne, [])"
    by (simp add: post_erin_def authed_def dispatch_post)
  show ?thesis
    using userRoutes_admitted [OF d authenticate_post(2), of 9000 "\<lparr>User_schema = UserSchema 1000, users = [dave]\<rparr>"]
    by (simp add: create_user_def User_create_def new_document_def validation_errors_def
          stub_lib_def str_field_def post_erin_def authed_def UserSchema_def
          trim_def is_space_def toLowerCase_def to_lower_def dave_def erin_def ok_def Let_def)
qed

theorem createdAt_is_load_time_witness:
  "userRoutes stub_lib 5000 post_dave (boot 1000) =
     Some (respond 201 (JObj [(''success'', JBool True), (''data'', user_json dave)]),
           \<lparr>User_schema = UserSchema 1000, users = [dave]\<rparr>)
   \<and> userRoutes stub_lib 9000 post_erin \<lparr>User_schema = UserSchema 1000, users = [dave]\<rparr> =
     Some (respond 201 (JObj [(''success'', JBool True), (''data'', user_json erin)]),
           \<lparr>User_schema = UserSchema 1000, users = [dave, erin]\<rparr>)
   \<and> field (user_json dave) ''createdAt'' = JDate 1000
   \<and> field (user_json erin) ''createdAt'' = JDate 1000"
proof -
  have v1: "verb post_dave = POST" and p1: "path post_dave = [''users'']"
    and v2: "verb post_erin = POST" and p2: "path post_erin = [''users'']"
    by (simp_all add: post_dave_def post_erin_def authed_def)
  have s1: "User_schema (boot 1000) = UserSchema 1000"
    and s2: "User_schema \<lparr>User_schema = UserSchema 1000, users = [dave]\<rparr> = UserSchema 1000"
    by (simp_all add: boot_def)
  let ?i1 = "\<lparr>in_name = Some ''Dave'', in_email = Some ''dave@example.com'', in_age = None,
               in_createdAt = None\<rparr>"
  let ?i2 = "\<lparr>in_name = Some ''Erin'', in_email = Some ''erin@example.com'', in_age = None,
               in_createdAt = None\<rparr>"
  have c1: "cast_fields stub_lib (body post_dave) = Inr ?i1"
    and c2: "cast_fields stub_lib (body post_erin) = Inr ?i2"
    by (simp_all add: stub_lib_def str_field_def post_dave_def post_erin_def authed_def)
  have n1: "in_createdAt ?i1 = None" and n2: "in_createdAt ?i2 = None" by simp_all
  have st: "status (respond 201 v) = 201" for v by (simp add: respond_def)
  from createdAt_is_load_time [OF v1 p1 authenticate_post(1) s1 c1 n1 create_dave st]
       createdAt_is_load_time [OF v2 p2 authenticate_post(2) s2 c2 n2 create_erin st]
       create_dave create_erin
  show ?thesis by (simp add: respond_def)
qed

end
